theory Spec2Isabelle
  imports
    Main
    "HOL-Library.Multiset"
    "HOL-Library.Char_ord"
    "HOL-Library.List_Lexorder"
begin

section \<open>The optimistic cart store of the storefront\<close>

text \<open>
  This theory embeds \<^verbatim>\<open>apps/storefront/src/lib/context/cart-context.tsx\<close>: the three
  optimistic updaters (bulk add, delete, update quantity), their handlers with the remote
  call and the callback that runs on rejection, and the sorted view handed to consumers.

  Conventions of the embedding.
  \<^item> A JavaScript number is an \<^typ>\<open>int\<close>: exact arithmetic, no rounding and no
    \<^verbatim>\<open>NaN\<close>. The \<^verbatim>\<open>x || 0\<close> of the source is \<open>or_zero\<close>.
  \<^item> An optional or nullable property is an \<^typ>\<open>'a option\<close>; \<^verbatim>\<open>null\<close> and
    \<^verbatim>\<open>undefined\<close> are both \<^term>\<open>None\<close>.
  \<^item> \<^verbatim>\<open>structuredClone\<close> is the identity: HOL values have no identity, so a value is
    its own deep copy. The one place where the source aliases an array and writes to it
    (\<^verbatim>\<open>Array.prototype.sort\<close> on the store's item array) is modelled by returning the
    store's cart after the write next to the view.
  \<^item> The hook \<^verbatim>\<open>useOptimistic\<close> is outside the file, and nothing is assumed about it. Two
    of its values are inputs of the model and are kept apart: \<open>rendered\<close>, the
    \<^verbatim>\<open>optimisticCart\<close> of the render whose closure a handler is (what its guard reads),
    and the state the hook hands to an updater as \<^verbatim>\<open>prev\<close>, the field \<open>optimisticCart\<close>
    of the store, which the updater's result replaces. The two can differ.
  \<^item> The clock \<^verbatim>\<open>new Date().toISOString()\<close> is a parameter \<open>now\<close>: \<open>now k\<close> is what the
    clock reads in iteration \<open>k\<close> of the bulk-add loop.
  \<^item> The field \<^verbatim>\<open>id\<close> of a line item is \<open>line_id\<close>, that of a variant \<open>variant_id\<close>, that
    of a cart \<open>b2b_id\<close>; the cart's \<^verbatim>\<open>item_subtotal\<close> and \<^verbatim>\<open>items\<close> are
    \<open>b2b_item_subtotal\<close> and \<open>b2b_items\<close>, to keep them apart from the line item's fields
    of the same name. The back reference \<^verbatim>\<open>cart\<close> of a synthesized line item is left
    out (nothing in the file reads it).
\<close>

subsection \<open>Data model\<close>

record store_product =
  product_thumbnail :: "string option"

record calculated_price_set =
  calculated_amount :: "int option"

record store_product_variant =
  variant_id :: string
  variant_title :: "string option"
  calculated_price :: "calculated_price_set option"
  variant_product :: "store_product option"

record store_cart_line_item =
  cart_id :: string
  discount_tax_total :: int
  discount_total :: int
  line_id :: string
  is_discountable :: bool
  is_tax_inclusive :: bool
  item_subtotal :: int
  item_tax_total :: int
  item_total :: int
  original_subtotal :: int
  original_tax_total :: int
  original_total :: int
  product :: "store_product option"
  quantity :: int
  requires_shipping :: bool
  subtotal :: int
  tax_total :: int
  title :: string
  total :: int
  thumbnail :: "string option"
  unit_price :: int
  variant :: "store_product_variant option"
  created_at :: "string option"

text \<open>
  A cart object. Every property is optional, because the source builds carts by spreading a
  possibly null cart (\<^verbatim>\<open>{...prev, item_subtotal, items}\<close>) and starts each snapshot
  variable as the empty object \<^verbatim>\<open>{}\<close>. \<open>b2b_region_id\<close> stands for the properties the
  file never writes.
\<close>

record b2b_cart =
  b2b_id :: "string option"
  b2b_region_id :: "string option"
  b2b_item_subtotal :: "int option"
  b2b_items :: "store_cart_line_item list option"

record payload_line =
  productVariant :: store_product_variant
  pl_quantity :: int

record add_to_cart_event_payload =
  lineItems :: "payload_line list"
  regionId :: string

subsection \<open>Helpers at the end of the source file\<close>

definition OPTIMISTIC_ITEM_ID_PREFIX :: string where
  "OPTIMISTIC_ITEM_ID_PREFIX = ''__optimistic__''"

definition generateOptimisticItemId :: "string \<Rightarrow> string" where
  "generateOptimisticItemId variantId = OPTIMISTIC_ITEM_ID_PREFIX @ ''-'' @ variantId"

definition startsWith :: "string \<Rightarrow> string \<Rightarrow> bool" where
  "startsWith s p = (take (length p) s = p)"

definition isOptimisticItemId :: "string \<Rightarrow> bool" where
  "isOptimisticItemId i = startsWith i OPTIMISTIC_ITEM_ID_PREFIX"

definition or_zero :: "int \<Rightarrow> int" where
  \<comment> \<open>\<^verbatim>\<open>x || 0\<close> on a number: a falsy number is replaced by 0.\<close>
  "or_zero x = (if x = 0 then 0 else x)"

definition calculateCartTotal :: "store_cart_line_item list \<Rightarrow> int" where
  "calculateCartTotal cartItems =
     or_zero (foldl (\<lambda>acc item. acc + unit_price item * quantity item) 0 cartItems)"

subsection \<open>Array methods of the language\<close>

fun findIndex :: "('a \<Rightarrow> bool) \<Rightarrow> 'a list \<Rightarrow> int" where
  \<comment> \<open>the index of the first element that satisfies the predicate, \<open>-1\<close> when there is none\<close>
  "findIndex P [] = - 1"
| "findIndex P (x # xs) =
     (if P x then 0 else (let r = findIndex P xs in if r = - 1 then - 1 else r + 1))"

fun insert_by :: "('a \<Rightarrow> 'a \<Rightarrow> int) \<Rightarrow> 'a \<Rightarrow> 'a list \<Rightarrow> 'a list" where
  "insert_by comparefn pivot [] = [pivot]"
| "insert_by comparefn pivot (e # es) =
     (if comparefn pivot e < 0 then pivot # e # es else e # insert_by comparefn pivot es)"

definition array_sort :: "('a \<Rightarrow> 'a \<Rightarrow> int) \<Rightarrow> 'a list \<Rightarrow> 'a list" where
  \<comment> \<open>\<^verbatim>\<open>Array.prototype.sort(comparefn)\<close> as an insertion sort from the left: each element
      is the pivot in turn and goes in front of the first element \<open>e\<close> of the sorted part
      with \<open>comparefn pivot e < 0\<close>, after every other one, so elements that tie keep their
      order. The language leaves the order of tied elements to the engine when a comparator
      answers as the one of this file does (never 0, and 1 both ways on a tie); this is the
      order V8 gives.\<close>
  "array_sort comparefn xs = foldl (\<lambda>sorted pivot. insert_by comparefn pivot sorted) [] xs"

subsection \<open>Bulk add: the updater of \<open>handleOptimisticAddToCart\<close>\<close>

definition or_empty :: "string option \<Rightarrow> string" where
  \<comment> \<open>\<^verbatim>\<open>s || ""\<close>\<close>
  "or_empty s = (case s of None \<Rightarrow> [] | Some t \<Rightarrow> t)"

definition or_undefined :: "string option \<Rightarrow> string option" where
  \<comment> \<open>\<^verbatim>\<open>s || undefined\<close>: the empty string is falsy\<close>
  "or_undefined s = (case s of None \<Rightarrow> None | Some t \<Rightarrow> if t = [] then None else Some t)"

definition priceAmount :: "payload_line \<Rightarrow> int" where
  \<comment> \<open>\<^verbatim>\<open>lineItem.productVariant.calculated_price?.calculated_amount || 0\<close>\<close>
  "priceAmount lineItem =
     (case calculated_price (productVariant lineItem) of
        None \<Rightarrow> 0
      | Some cp \<Rightarrow> (case calculated_amount cp of None \<Rightarrow> 0 | Some a \<Rightarrow> or_zero a))"

definition newItem :: "b2b_cart option \<Rightarrow> string \<Rightarrow> payload_line \<Rightarrow> store_cart_line_item" where
  "newItem prev created lineItem =
     \<lparr> cart_id = or_empty (case prev of None \<Rightarrow> None | Some c \<Rightarrow> b2b_id c),
       discount_tax_total = 0,
       discount_total = 0,
       line_id = generateOptimisticItemId (variant_id (productVariant lineItem)),
       is_discountable = False,
       is_tax_inclusive = False,
       item_subtotal = priceAmount lineItem,
       item_tax_total = 0,
       item_total = priceAmount lineItem,
       original_subtotal = priceAmount lineItem,
       original_tax_total = 0,
       original_total = priceAmount lineItem,
       product = variant_product (productVariant lineItem),
       quantity = pl_quantity lineItem,
       requires_shipping = True,
       subtotal = priceAmount lineItem,
       tax_total = 0,
       title = or_empty (variant_title (productVariant lineItem)),
       total = priceAmount lineItem,
       thumbnail =
         or_undefined (case variant_product (productVariant lineItem) of
                         None \<Rightarrow> None | Some p \<Rightarrow> product_thumbnail p),
       unit_price = priceAmount lineItem,
       variant = Some (productVariant lineItem),
       created_at = Some created \<rparr>"

definition has_variant :: "string \<Rightarrow> store_cart_line_item \<Rightarrow> bool" where
  \<comment> \<open>\<^verbatim>\<open>({ variant }) => variant?.id === v\<close>\<close>
  "has_variant v item = (case variant item of None \<Rightarrow> False | Some w \<Rightarrow> variant_id w = v)"

definition add_line ::
  "b2b_cart option \<Rightarrow> string \<Rightarrow> payload_line \<Rightarrow> store_cart_line_item list
     \<Rightarrow> store_cart_line_item list" where
  \<comment> \<open>one iteration of the loop over \<^verbatim>\<open>payload.lineItems\<close>\<close>
  "add_line prev created lineItem newItems =
     (let existingItemIndex = findIndex (has_variant (variant_id (productVariant lineItem))) newItems
      in if existingItemIndex > - 1
         then (let item = newItems ! nat existingItemIndex
               in newItems[nat existingItemIndex :=
                             item\<lparr>quantity := quantity item + pl_quantity lineItem\<rparr>])
         else newItems @ [newItem prev created lineItem])"

fun add_loop ::
  "b2b_cart option \<Rightarrow> (nat \<Rightarrow> string) \<Rightarrow> nat \<Rightarrow> payload_line list \<Rightarrow> store_cart_line_item list
     \<Rightarrow> store_cart_line_item list" where
  "add_loop prev now k [] newItems = newItems"
| "add_loop prev now k (lineItem # rest) newItems =
     add_loop prev now (Suc k) rest (add_line prev (now k) lineItem newItems)"

definition empty_object :: b2b_cart where
  \<comment> \<open>\<^verbatim>\<open>{} as B2BCart\<close>\<close>
  "empty_object =
     \<lparr> b2b_id = None, b2b_region_id = None, b2b_item_subtotal = None, b2b_items = None \<rparr>"

definition spread :: "b2b_cart option \<Rightarrow> b2b_cart" where
  \<comment> \<open>\<^verbatim>\<open>{...prev}\<close>: spreading null gives the empty object\<close>
  "spread prev = (case prev of None \<Rightarrow> empty_object | Some c \<Rightarrow> c)"

definition items_or_empty :: "b2b_cart option \<Rightarrow> store_cart_line_item list" where
  \<comment> \<open>\<^verbatim>\<open>prev?.items || []\<close>\<close>
  "items_or_empty prev =
     (case prev of None \<Rightarrow> [] | Some c \<Rightarrow> (case b2b_items c of None \<Rightarrow> [] | Some xs \<Rightarrow> xs))"

definition add_updater ::
  "add_to_cart_event_payload \<Rightarrow> (nat \<Rightarrow> string) \<Rightarrow> b2b_cart option
     \<Rightarrow> b2b_cart option \<times> b2b_cart option" where
  \<comment> \<open>returns the value assigned to \<^verbatim>\<open>prevCart\<close> and the new state\<close>
  "add_updater payload now prev =
     (let prevCart = prev;
          items = items_or_empty prev;
          newItems = add_loop prev now 0 (lineItems payload) items;
          newTotal = calculateCartTotal newItems
      in (prevCart,
          Some ((spread prev)\<lparr>b2b_item_subtotal := Some newTotal, b2b_items := Some newItems\<rparr>)))"

subsection \<open>Delete and update quantity: the updaters\<close>

definition or_zero_opt :: "int option \<Rightarrow> int" where
  \<comment> \<open>\<^verbatim>\<open>x || 0\<close> on a number that may be undefined\<close>
  "or_zero_opt x = (case x of None \<Rightarrow> 0 | Some n \<Rightarrow> or_zero n)"

definition reduce_total :: "store_cart_line_item list \<Rightarrow> int" where
  \<comment> \<open>\<^verbatim>\<open>.reduce((acc, item) => acc + item.unit_price * item.quantity, 0)\<close>\<close>
  "reduce_total xs = foldl (\<lambda>acc item. acc + unit_price item * quantity item) 0 xs"

definition delete_updater ::
  "string \<Rightarrow> b2b_cart option \<Rightarrow> b2b_cart option \<Rightarrow> b2b_cart option \<times> b2b_cart option" where
  \<comment> \<open>takes the current value of \<^verbatim>\<open>prevCart\<close>; returns its value afterwards and the new state\<close>
  "delete_updater lineItem prevCart prev =
     (case prev of
        None \<Rightarrow> (prevCart, None)
      | Some c \<Rightarrow>
          (let optimisticItems = map_option (filter (\<lambda>item. line_id item \<noteq> lineItem)) (b2b_items c);
               optimisticTotal = map_option reduce_total optimisticItems
           in (Some c,
               Some (c\<lparr>b2b_item_subtotal := Some (or_zero_opt optimisticTotal),
                       b2b_items := optimisticItems\<rparr>))))"

definition update_reducer ::
  "string \<Rightarrow> int \<Rightarrow> store_cart_line_item list \<Rightarrow> store_cart_line_item
     \<Rightarrow> store_cart_line_item list" where
  "update_reducer lineItem qty acc item =
     (if line_id item = lineItem
      then (if qty = 0 then acc else acc @ [item\<lparr>quantity := qty\<rparr>])
      else acc @ [item])"

definition update_updater ::
  "string \<Rightarrow> int \<Rightarrow> b2b_cart option \<Rightarrow> b2b_cart option \<Rightarrow> b2b_cart option \<times> b2b_cart option" where
  "update_updater lineItem qty prevCart prev =
     (case prev of
        None \<Rightarrow> (prevCart, None)
      | Some c \<Rightarrow>
          (let optimisticItems = map_option (foldl (update_reducer lineItem qty) []) (b2b_items c);
               optimisticTotal = map_option reduce_total optimisticItems
           in (Some c,
               Some (c\<lparr>b2b_item_subtotal := Some (or_zero_opt optimisticTotal),
                       b2b_items := optimisticItems\<rparr>))))"

subsection \<open>The store and the three handlers\<close>

datatype remote_call =
    AddToCartBulk "(string \<times> int) list" string
  | DeleteLineItem string
  | UpdateLineItem string int

text \<open>
  The store holds what a handler reads and writes besides its own variables: the state of
  the hook as the updater receives it, the remote calls issued so far and the
  notifications shown so far.
\<close>

record cart_store =
  optimisticCart :: "b2b_cart option"
  remote_calls :: "remote_call list"
  toasts :: "string list"

text \<open>
  A handler runs in two parts. The first part (\<open>_begin\<close>) is everything up to the awaited
  remote call: the guard on the rendered cart, the updater on the state of the hook, and
  the dispatch of the call, which is appended to \<open>remote_calls\<close>. It returns the store and,
  when a remote call is in flight, the value its closure holds in \<^verbatim>\<open>prevCart\<close>. The
  second part (\<open>_catch\<close>) is the callback that runs if the call rejects.
\<close>

definition find_item :: "string \<Rightarrow> b2b_cart option \<Rightarrow> store_cart_line_item option" where
  \<comment> \<open>\<^verbatim>\<open>optimisticCart?.items?.find(({ id }) => id === lineItem)\<close>\<close>
  "find_item lineItem cart =
     (case cart of
        None \<Rightarrow> None
      | Some c \<Rightarrow> (case b2b_items c of
                    None \<Rightarrow> None
                  | Some xs \<Rightarrow> find (\<lambda>item. line_id item = lineItem) xs))"

definition handleOptimisticAddToCart_begin ::
  "add_to_cart_event_payload \<Rightarrow> string \<Rightarrow> (nat \<Rightarrow> string) \<Rightarrow> cart_store
     \<Rightarrow> cart_store \<times> b2b_cart option option" where
  "handleOptimisticAddToCart_begin payload countryCode now s =
     (let (prevCart, new) = add_updater payload now (optimisticCart s)
      in (s\<lparr>optimisticCart := new,
             remote_calls := remote_calls s @
               [AddToCartBulk
                  (map (\<lambda>lineItem. (variant_id (productVariant lineItem), pl_quantity lineItem))
                       (lineItems payload))
                  countryCode]\<rparr>,
          Some prevCart))"

definition handleOptimisticAddToCart_catch :: "b2b_cart option \<Rightarrow> cart_store \<Rightarrow> cart_store" where
  "handleOptimisticAddToCart_catch prevCart s =
     s\<lparr>toasts := toasts s @ [''Failed to add to cart''], optimisticCart := prevCart\<rparr>"

definition handleDeleteItem_begin ::
  "b2b_cart option \<Rightarrow> string \<Rightarrow> cart_store \<Rightarrow> cart_store \<times> b2b_cart option option" where
  \<comment> \<open>the guard reads the rendered cart; the updater reads the state of the hook\<close>
  "handleDeleteItem_begin rendered lineItem s =
     (case find_item lineItem rendered of
        None \<Rightarrow> (s, None)
      | Some item \<Rightarrow>
          (let (prevCart, new) = delete_updater lineItem (Some empty_object) (optimisticCart s)
           in (s\<lparr>optimisticCart := new,
                  remote_calls := remote_calls s @ [DeleteLineItem lineItem]\<rparr>,
               Some prevCart)))"

definition handleDeleteItem_catch :: "b2b_cart option \<Rightarrow> cart_store \<Rightarrow> cart_store" where
  "handleDeleteItem_catch prevCart s =
     s\<lparr>toasts := toasts s @ [''Failed to delete item''], optimisticCart := prevCart\<rparr>"

definition handleUpdateCartQuantity_begin ::
  "b2b_cart option \<Rightarrow> string \<Rightarrow> int \<Rightarrow> cart_store \<Rightarrow> cart_store \<times> b2b_cart option option" where
  \<comment> \<open>the guard reads the rendered cart; the updater reads the state of the hook\<close>
  "handleUpdateCartQuantity_begin rendered lineItem qty s =
     (case find_item lineItem rendered of
        None \<Rightarrow> (s, None)
      | Some item \<Rightarrow>
          (let (prevCart, new) = update_updater lineItem qty (Some empty_object) (optimisticCart s)
           in if \<not> isOptimisticItemId lineItem
              then (s\<lparr>optimisticCart := new,
                      remote_calls := remote_calls s @ [UpdateLineItem lineItem qty]\<rparr>,
                    Some prevCart)
              else (s\<lparr>optimisticCart := new\<rparr>, None)))"

definition handleUpdateCartQuantity_catch :: "b2b_cart option \<Rightarrow> cart_store \<Rightarrow> cart_store" where
  "handleUpdateCartQuantity_catch prevCart s =
     s\<lparr>toasts := toasts s @ [''Failed to update cart quantity''], optimisticCart := prevCart\<rparr>"

datatype operation =
    BulkAdd add_to_cart_event_payload string "nat \<Rightarrow> string"
  | DeleteItem string
  | UpdateQuantity string int

fun begin_op ::
  "b2b_cart option \<Rightarrow> operation \<Rightarrow> cart_store \<Rightarrow> cart_store \<times> b2b_cart option option" where
  "begin_op rendered (BulkAdd payload countryCode now) s =
     handleOptimisticAddToCart_begin payload countryCode now s"
| "begin_op rendered (DeleteItem lineItem) s = handleDeleteItem_begin rendered lineItem s"
| "begin_op rendered (UpdateQuantity lineItem qty) s =
     handleUpdateCartQuantity_begin rendered lineItem qty s"

subsection \<open>The sorted view\<close>

definition created_key :: "store_cart_line_item \<Rightarrow> string" where
  \<comment> \<open>\<^verbatim>\<open>a.created_at ?? ""\<close>\<close>
  "created_key a = (case created_at a of None \<Rightarrow> [] | Some t \<Rightarrow> t)"

definition compare_created :: "store_cart_line_item \<Rightarrow> store_cart_line_item \<Rightarrow> int" where
  "compare_created a b = (if created_key a > created_key b then - 1 else 1)"

definition sortedItems ::
  "b2b_cart option \<Rightarrow> store_cart_line_item list option \<times> b2b_cart option" where
  \<comment> \<open>\<^verbatim>\<open>optimisticCart?.items?.sort(...)\<close>. The first component is the value of
      \<^verbatim>\<open>sortedItems\<close>; the second is \<^verbatim>\<open>optimisticCart\<close> afterwards: \<^verbatim>\<open>sort\<close> sorts the
      array it is called on and returns that same array.\<close>
  "sortedItems cart =
     (case cart of
        None \<Rightarrow> (None, None)
      | Some c \<Rightarrow>
          (case b2b_items c of
             None \<Rightarrow> (None, Some c)
           | Some xs \<Rightarrow>
               (let sorted = array_sort compare_created xs
                in (Some sorted, Some (c\<lparr>b2b_items := Some sorted\<rparr>)))))"

definition provided_cart :: "b2b_cart option \<Rightarrow> b2b_cart" where
  \<comment> \<open>the context value \<^verbatim>\<open>{ ...optimisticCart, items: sortedItems }\<close>\<close>
  "provided_cart cart = (spread cart)\<lparr>b2b_items := fst (sortedItems cart)\<rparr>"

subsection \<open>Properties as the specification words them\<close>

definition subtotal_is_sum :: "b2b_cart option \<Rightarrow> bool" where
  "subtotal_is_sum cart =
     (case cart of
        None \<Rightarrow> False
      | Some c \<Rightarrow>
          b2b_item_subtotal c =
            Some (\<Sum>item\<leftarrow>items_or_empty (Some c). unit_price item * quantity item))"

definition updated_items :: "string \<Rightarrow> int \<Rightarrow> store_cart_line_item list \<Rightarrow> store_cart_line_item list" where
  "updated_items lineItem qty xs =
     (if qty = 0 then filter (\<lambda>item. line_id item \<noteq> lineItem) xs
      else map (\<lambda>item. if line_id item = lineItem then item\<lparr>quantity := qty\<rparr> else item) xs)"


definition money_fields :: "store_cart_line_item \<Rightarrow> int \<times> int \<times> int \<times> int \<times> int \<times> int" where
  "money_fields item =
     (subtotal item, total item, item_subtotal item, item_total item,
      original_subtotal item, original_total item)"

subsection \<open>Sample data\<close>

text \<open>Carts and line items as the backend returns them, for the concrete instances below.\<close>

definition sample_variant :: "string \<Rightarrow> int option \<Rightarrow> store_product_variant" where
  "sample_variant v amount =
     \<lparr> variant_id = v, variant_title = Some ''Variant'',
       calculated_price = Some \<lparr> calculated_amount = amount \<rparr>,
       variant_product = Some \<lparr> product_thumbnail = None \<rparr> \<rparr>"

definition sample_item ::
  "string \<Rightarrow> string \<Rightarrow> int \<Rightarrow> int \<Rightarrow> string option \<Rightarrow> store_cart_line_item" where
  "sample_item i v price qty created =
     \<lparr> cart_id = ''cart_1'', discount_tax_total = 0, discount_total = 0, line_id = i,
       is_discountable = True, is_tax_inclusive = False, item_subtotal = price * qty,
       item_tax_total = 0, item_total = price * qty, original_subtotal = price * qty,
       original_tax_total = 0, original_total = price * qty, product = None, quantity = qty,
       requires_shipping = True, subtotal = price * qty, tax_total = 0, title = ''Item'',
       total = price * qty, thumbnail = None, unit_price = price,
       variant = Some (sample_variant v (Some price)), created_at = created \<rparr>"

definition sample_cart :: "store_cart_line_item list \<Rightarrow> b2b_cart" where
  "sample_cart xs =
     \<lparr> b2b_id = Some ''cart_1'', b2b_region_id = Some ''reg_1'',
       b2b_item_subtotal = Some (\<Sum>item\<leftarrow>xs. unit_price item * quantity item),
       b2b_items = Some xs \<rparr>"

definition sample_store :: "b2b_cart option \<Rightarrow> cart_store" where
  "sample_store cart = \<lparr> optimisticCart = cart, remote_calls = [], toasts = [] \<rparr>"

definition two_item_store :: cart_store where
  "two_item_store =
     sample_store (Some (sample_cart
       [sample_item ''li_1'' ''v1'' 50 2 (Some ''2024-05-01T10:00:00.000Z''),
        sample_item ''__optimistic__-v2'' ''v2'' 20 1 (Some ''2024-05-01T11:00:00.000Z'')]))"


definition line_v2 :: "int \<Rightarrow> payload_line" where
  "line_v2 q = \<lparr>productVariant = sample_variant ''v2'' (Some 50), pl_quantity = q\<rparr>"

definition one_item_cart :: b2b_cart where
  "one_item_cart = sample_cart [sample_item ''li_1'' ''v1'' 10 1 (Some ''2024-05-01T10:00:00.000Z'')]"

definition clock :: "nat \<Rightarrow> string" where
  "clock k = ''2024-05-02T09:00:00.000Z''"


definition untimed_item :: store_cart_line_item where
  "untimed_item = sample_item ''li_1'' ''v1'' 10 1 None"

definition old_item :: store_cart_line_item where
  "old_item = sample_item ''li_1'' ''v1'' 10 1 (Some ''2024-05-01T10:00:00.000Z'')"

definition recent_item :: store_cart_line_item where
  "recent_item = sample_item ''li_2'' ''v2'' 20 1 (Some ''2024-05-02T09:00:00.000Z'')"

section \<open>Facts about the model\<close>

subsection \<open>Totals\<close>

lemma or_zero_id: "or_zero x = x"
  by (simp add: or_zero_def)

lemma foldl_total: "foldl (\<lambda>acc item. acc + unit_price item * quantity item) a xs
    = a + (\<Sum>item\<leftarrow>xs. unit_price item * quantity item)"
  by (induction xs arbitrary: a) simp_all

lemma reduce_total_sum: "reduce_total xs = (\<Sum>item\<leftarrow>xs. unit_price item * quantity item)"
  by (simp add: reduce_total_def foldl_total)

lemma calculateCartTotal_sum:
  "calculateCartTotal xs = (\<Sum>item\<leftarrow>xs. unit_price item * quantity item)"
  by (simp add: calculateCartTotal_def or_zero_id foldl_total)

subsection \<open>Finding a line item\<close>

lemma findIndex_ge: "- 1 \<le> findIndex P xs"
  by (induction xs) (auto simp: Let_def)

lemma findIndex_none: "findIndex P xs = - 1 \<longleftrightarrow> (\<forall>x \<in> set xs. \<not> P x)"
proof (induction xs)
  case Nil
  show ?case by simp
next
  case (Cons x xs)
  have "- 1 \<le> findIndex P xs" by (rule findIndex_ge)
  with Cons show ?case by (auto simp: Let_def)
qed

lemma findIndex_first:
  "i < length xs \<Longrightarrow> P (xs ! i) \<Longrightarrow> \<forall>j<i. \<not> P (xs ! j) \<Longrightarrow> findIndex P xs = int i"
proof (induction xs arbitrary: i)
  case Nil
  then show ?case by simp
next
  case (Cons x xs)
  show ?case
  proof (cases i)
    case 0
    with Cons.prems show ?thesis by simp
  next
    case (Suc k)
    with Cons.prems have "\<not> P x" by auto
    moreover from Suc Cons.prems have "findIndex P xs = int k"
      by (intro Cons.IH) auto
    ultimately show ?thesis using Suc by (simp add: Let_def)
  qed
qed

lemma findIndex_hit:
  assumes "\<exists>x \<in> set xs. P x"
  shows "0 \<le> findIndex P xs \<and> nat (findIndex P xs) < length xs
       \<and> P (xs ! nat (findIndex P xs)) \<and> (\<forall>j < nat (findIndex P xs). \<not> P (xs ! j))"
  using assms
proof (induction xs)
  case Nil
  then show ?case by simp
next
  case (Cons x xs)
  show ?case
  proof (cases "P x")
    case True
    then show ?thesis by simp
  next
    case False
    with Cons.prems have ex: "\<exists>x \<in> set xs. P x" by auto
    from Cons.IH [OF ex] have ih: "0 \<le> findIndex P xs" "nat (findIndex P xs) < length xs"
      "P (xs ! nat (findIndex P xs))" "\<forall>j < nat (findIndex P xs). \<not> P (xs ! j)" by auto
    from ih(1) have ne: "findIndex P xs \<noteq> - 1" by simp
    have n: "nat (findIndex P xs + 1) = Suc (nat (findIndex P xs))"
      using ih(1) by simp
    show ?thesis
      using False ne ih n by (auto simp: Let_def nth_Cons split: nat.splits)
  qed
qed

lemma find_item_None_iff:
  "find_item l cart = None \<longleftrightarrow> (\<forall>item \<in> set (items_or_empty cart). line_id item \<noteq> l)"
  by (auto simp: find_item_def items_or_empty_def find_None_iff split: option.splits)

lemma present_find_item:
  assumes "lineItem \<in> set (map line_id (items_or_empty cart))"
  shows "\<exists>c xs item. cart = Some c \<and> b2b_items c = Some xs \<and> lineItem \<in> set (map line_id xs)
           \<and> find_item lineItem cart = Some item"
proof -
  from assms obtain c where c1: "cart = Some c"
    by (cases cart) (auto simp: items_or_empty_def)
  with assms obtain xs where c2: "b2b_items c = Some xs"
    by (cases "b2b_items c") (auto simp: items_or_empty_def)
  note c = c1 c2
  with assms have "lineItem \<in> set (map line_id xs)"
    by (simp add: items_or_empty_def)
  moreover have "find_item lineItem cart \<noteq> None"
    using assms find_item_None_iff [of lineItem cart] by auto
  ultimately show ?thesis using c by auto
qed

subsection \<open>The bulk-add loop\<close>

lemma add_line_existing:
  assumes "i < length newItems" and "has_variant (variant_id (productVariant lineItem)) (newItems ! i)"
    and "\<forall>j<i. \<not> has_variant (variant_id (productVariant lineItem)) (newItems ! j)"
  shows "add_line prev created lineItem newItems =
           newItems[i := (newItems ! i)\<lparr>quantity := quantity (newItems ! i) + pl_quantity lineItem\<rparr>]"
  using findIndex_first [OF assms(1), of "has_variant (variant_id (productVariant lineItem))"] assms(2,3)
  by (simp add: add_line_def Let_def)

lemma add_line_new:
  assumes "\<not> list_ex (has_variant (variant_id (productVariant lineItem))) newItems"
  shows "add_line prev created lineItem newItems = newItems @ [newItem prev created lineItem]"
proof -
  from assms have "findIndex (has_variant (variant_id (productVariant lineItem))) newItems = - 1"
    by (simp add: findIndex_none list_ex_iff)
  then show ?thesis by (simp add: add_line_def)
qed

lemma add_line_merge:
  assumes "list_ex (has_variant (variant_id (productVariant lineItem))) newItems"
  shows "\<exists>i<length newItems.
           has_variant (variant_id (productVariant lineItem)) (newItems ! i)
         \<and> (\<forall>j<i. \<not> has_variant (variant_id (productVariant lineItem)) (newItems ! j))
         \<and> add_line prev created lineItem newItems =
             newItems[i := (newItems ! i)\<lparr>quantity := quantity (newItems ! i) + pl_quantity lineItem\<rparr>]"
proof -
  let ?P = "has_variant (variant_id (productVariant lineItem))"
  from assms have "\<exists>x \<in> set newItems. ?P x" by (simp add: list_ex_iff)
  from findIndex_hit [OF this] have h: "0 \<le> findIndex ?P newItems"
    "nat (findIndex ?P newItems) < length newItems" "?P (newItems ! nat (findIndex ?P newItems))"
    "\<forall>j < nat (findIndex ?P newItems). \<not> ?P (newItems ! j)" by auto
  from h(2,3,4) add_line_existing [OF h(2,3), of prev created] show ?thesis by blast
qed

lemma add_loop_foldl:
  "add_loop prev now k ls xs =
     foldl (\<lambda>acc (j, lineItem). add_line prev (now j) lineItem acc) xs (enumerate k ls)"
  by (induction ls arbitrary: k xs) simp_all

lemma priceAmount_eq:
  "priceAmount lineItem =
     (case calculated_price (productVariant lineItem) of
        None \<Rightarrow> 0
      | Some cp \<Rightarrow> (case calculated_amount cp of None \<Rightarrow> 0 | Some a \<Rightarrow> a))"
  by (simp add: priceAmount_def or_zero_id split: option.splits)

lemma has_variant_newItem:
  "has_variant v (newItem prev created lineItem) = (variant_id (productVariant lineItem) = v)"
  by (simp add: has_variant_def newItem_def)

lemma has_variant_quantity [simp]: "has_variant v (item\<lparr>quantity := q\<rparr>) = has_variant v item"
  by (simp add: has_variant_def)

lemma add_updater_items:
  "items_or_empty (snd (add_updater payload now prev)) =
     add_loop prev now 0 (lineItems payload) (items_or_empty prev)"
  by (simp add: add_updater_def Let_def items_or_empty_def)

lemma add_twice_merges:
  assumes fresh: "\<not> list_ex (has_variant (variant_id (productVariant l1))) (items_or_empty prev)"
    and same: "variant_id (productVariant l2) = variant_id (productVariant l1)"
  shows "items_or_empty (snd (add_updater \<lparr>lineItems = [l2], regionId = r2\<rparr> now2
            (snd (add_updater \<lparr>lineItems = [l1], regionId = r1\<rparr> now1 prev)))) =
         items_or_empty prev @
           [(newItem prev (now1 0) l1)\<lparr>quantity := pl_quantity l1 + pl_quantity l2\<rparr>]"
proof -
  let ?xs = "items_or_empty prev"
  let ?n = "newItem prev (now1 0) l1"
  let ?mid = "snd (add_updater \<lparr>lineItems = [l1], regionId = r1\<rparr> now1 prev)"
  have mid: "items_or_empty ?mid = ?xs @ [?n]"
    by (simp add: add_updater_items add_line_new [OF fresh])
  have nofirst: "\<forall>j<length ?xs. \<not> has_variant (variant_id (productVariant l2)) ((?xs @ [?n]) ! j)"
    using fresh by (simp add: same list_ex_iff nth_append)
  have hit: "has_variant (variant_id (productVariant l2)) ((?xs @ [?n]) ! length ?xs)"
    by (simp add: has_variant_newItem same)
  have "add_line ?mid (now2 0) l2 (?xs @ [?n]) =
          (?xs @ [?n])[length ?xs := ((?xs @ [?n]) ! length ?xs)
             \<lparr>quantity := quantity ((?xs @ [?n]) ! length ?xs) + pl_quantity l2\<rparr>]"
    by (rule add_line_existing) (use hit nofirst in simp_all)
  also have "\<dots> = ?xs @ [?n\<lparr>quantity := pl_quantity l1 + pl_quantity l2\<rparr>]"
    by (simp add: newItem_def)
  finally show ?thesis
    by (simp add: add_updater_items [of _ now2] mid)
qed

lemma subtotal_is_sum_add_updater: "subtotal_is_sum (snd (add_updater payload now prev))"
  by (simp add: add_updater_def subtotal_is_sum_def items_or_empty_def calculateCartTotal_sum Let_def)

subsection \<open>The delete and update updaters\<close>

lemma foldl_update_reducer:
  "foldl (update_reducer l q) acc xs =
     acc @ (if q = 0 then filter (\<lambda>item. line_id item \<noteq> l) xs
            else map (\<lambda>item. if line_id item = l then item\<lparr>quantity := q\<rparr> else item) xs)"
  by (induction xs arbitrary: acc) (simp_all add: update_reducer_def)

lemma delete_updater_Some:
  "delete_updater lineItem prevCart (Some c) =
     (Some c,
      Some (c\<lparr>b2b_item_subtotal :=
                 Some (case b2b_items c of
                         None \<Rightarrow> 0
                       | Some xs \<Rightarrow> \<Sum>item\<leftarrow>filter (\<lambda>item. line_id item \<noteq> lineItem) xs.
                                      unit_price item * quantity item),
              b2b_items := map_option (filter (\<lambda>item. line_id item \<noteq> lineItem)) (b2b_items c)\<rparr>))"
  by (cases "b2b_items c")
     (simp_all add: delete_updater_def or_zero_opt_def or_zero_id reduce_total_sum)

lemma update_updater_Some:
  "update_updater lineItem qty prevCart (Some c) =
     (Some c,
      Some (c\<lparr>b2b_item_subtotal :=
                 Some (case b2b_items c of
                         None \<Rightarrow> 0
                       | Some xs \<Rightarrow> \<Sum>item\<leftarrow>updated_items lineItem qty xs.
                                      unit_price item * quantity item),
              b2b_items := map_option (updated_items lineItem qty) (b2b_items c)\<rparr>))"
  by (cases "b2b_items c")
     (simp_all add: update_updater_def or_zero_opt_def or_zero_id reduce_total_sum
        foldl_update_reducer updated_items_def)

lemma subtotal_is_sum_delete_updater:
  "subtotal_is_sum (snd (delete_updater lineItem prevCart (Some c)))"
  by (cases "b2b_items c") (simp_all add: delete_updater_Some subtotal_is_sum_def items_or_empty_def)

lemma subtotal_is_sum_update_updater:
  "subtotal_is_sum (snd (update_updater lineItem qty prevCart (Some c)))"
  by (cases "b2b_items c") (simp_all add: update_updater_Some subtotal_is_sum_def items_or_empty_def)

subsection \<open>The handlers\<close>

lemma present_passes_guard:
  assumes "lineItem \<in> set (map line_id (items_or_empty rendered))"
  shows "\<exists>item. find_item lineItem rendered = Some item"
  using assms find_item_None_iff [of lineItem rendered] by auto

lemma absent_fails_guard:
  assumes "lineItem \<notin> set (map line_id (items_or_empty rendered))"
  shows "find_item lineItem rendered = None"
  using assms by (auto simp: find_item_None_iff)

lemma delete_updater_None: "delete_updater lineItem prevCart None = (prevCart, None)"
  by (simp add: delete_updater_def)

lemma update_updater_None: "update_updater lineItem qty prevCart None = (prevCart, None)"
  by (simp add: update_updater_def)

lemma handleOptimisticAddToCart_begin_eq:
  "handleOptimisticAddToCart_begin payload countryCode now s =
     (s\<lparr>optimisticCart := snd (add_updater payload now (optimisticCart s)),
        remote_calls := remote_calls s @
          [AddToCartBulk
             (map (\<lambda>lineItem. (variant_id (productVariant lineItem), pl_quantity lineItem))
                  (lineItems payload))
             countryCode]\<rparr>,
      Some (optimisticCart s))"
  by (simp add: handleOptimisticAddToCart_begin_def add_updater_def Let_def)

lemma handleDeleteItem_begin_passed:
  assumes "find_item lineItem rendered = Some item"
  shows "handleDeleteItem_begin rendered lineItem s =
           (s\<lparr>optimisticCart := snd (delete_updater lineItem (Some empty_object) (optimisticCart s)),
              remote_calls := remote_calls s @ [DeleteLineItem lineItem]\<rparr>,
            Some (fst (delete_updater lineItem (Some empty_object) (optimisticCart s))))"
  using assms by (simp add: handleDeleteItem_begin_def case_prod_beta)

lemma handleUpdateCartQuantity_begin_passed:
  assumes "find_item lineItem rendered = Some item"
  shows "handleUpdateCartQuantity_begin rendered lineItem qty s =
           (if \<not> isOptimisticItemId lineItem
            then (s\<lparr>optimisticCart :=
                       snd (update_updater lineItem qty (Some empty_object) (optimisticCart s)),
                    remote_calls := remote_calls s @ [UpdateLineItem lineItem qty]\<rparr>,
                  Some (fst (update_updater lineItem qty (Some empty_object) (optimisticCart s))))
            else (s\<lparr>optimisticCart :=
                       snd (update_updater lineItem qty (Some empty_object) (optimisticCart s))\<rparr>,
                  None))"
  using assms by (simp add: handleUpdateCartQuantity_begin_def case_prod_beta)

text \<open>
  Where an updater takes its snapshot, the snapshot is the state it was handed, and the
  callback of each handler writes the snapshot it is given. Bulk add always takes it;
  delete and update take it when the state they are handed is a cart.
\<close>

lemma add_snapshot_is_state:
  "snd (handleOptimisticAddToCart_begin payload countryCode now s) = Some (optimisticCart s)"
  by (simp add: handleOptimisticAddToCart_begin_eq)

lemma delete_snapshot_is_state:
  assumes "lineItem \<in> set (map line_id (items_or_empty rendered))" and "optimisticCart s = Some c"
  shows "snd (handleDeleteItem_begin rendered lineItem s) = Some (Some c)"
proof -
  from assms(1) obtain item where "find_item lineItem rendered = Some item"
    using present_passes_guard by blast
  then show ?thesis
    by (simp add: handleDeleteItem_begin_passed assms(2) delete_updater_Some)
qed

lemma update_snapshot_is_state:
  assumes "lineItem \<in> set (map line_id (items_or_empty rendered))" and "optimisticCart s = Some c"
    and "\<not> isOptimisticItemId lineItem"
  shows "snd (handleUpdateCartQuantity_begin rendered lineItem qty s) = Some (Some c)"
proof -
  from assms(1) obtain item where "find_item lineItem rendered = Some item"
    using present_passes_guard by blast
  then show ?thesis
    by (simp add: handleUpdateCartQuantity_begin_passed assms(2,3) update_updater_Some)
qed

lemma catch_writes_snapshot:
  "optimisticCart (handleOptimisticAddToCart_catch prevCart s) = prevCart"
  "optimisticCart (handleDeleteItem_catch prevCart s) = prevCart"
  "optimisticCart (handleUpdateCartQuantity_catch prevCart s) = prevCart"
  by (simp_all add: handleOptimisticAddToCart_catch_def handleDeleteItem_catch_def
      handleUpdateCartQuantity_catch_def)

subsection \<open>Sorting by the creation timestamp\<close>

lemma mset_insert_by: "mset (insert_by c x xs) = add_mset x (mset xs)"
  by (induction xs) auto

lemma mset_array_sort_aux: "mset (foldl (\<lambda>sorted pivot. insert_by c pivot sorted) acc xs) = mset acc + mset xs"
  by (induction xs arbitrary: acc) (auto simp: mset_insert_by)

lemma mset_array_sort: "mset (array_sort c xs) = mset xs"
  by (simp add: array_sort_def mset_array_sort_aux)

lemma set_insert_by: "set (insert_by c x xs) = insert x (set xs)"
  by (induction xs) auto

lemma compare_created_neg: "(compare_created a b < 0) = (created_key b < created_key a)"
  by (simp add: compare_created_def)

lemma sorted_insert_by:
  assumes "sorted_wrt (\<lambda>a b. created_key b \<le> created_key a) xs"
  shows "sorted_wrt (\<lambda>a b. created_key b \<le> created_key a) (insert_by compare_created x xs)"
  using assms
proof (induction xs)
  case Nil
  then show ?case by simp
next
  case (Cons e es)
  show ?case
  proof (cases "compare_created x e < 0")
    case True
    then have "created_key e < created_key x" by (simp add: compare_created_neg)
    with Cons.prems show ?thesis using True by (auto intro: order_trans less_imp_le)
  next
    case False
    then have "created_key x \<le> created_key e" by (simp add: compare_created_neg not_less)
    with Cons show ?thesis using False by (auto simp: set_insert_by)
  qed
qed

lemma sorted_array_sort_aux:
  "sorted_wrt (\<lambda>a b. created_key b \<le> created_key a) acc \<Longrightarrow>
   sorted_wrt (\<lambda>a b. created_key b \<le> created_key a)
     (foldl (\<lambda>sorted pivot. insert_by compare_created pivot sorted) acc xs)"
  by (induction xs arbitrary: acc) (simp_all add: sorted_insert_by)

lemma sorted_array_sort:
  "sorted_wrt (\<lambda>a b. created_key b \<le> created_key a) (array_sort compare_created xs)"
  by (simp add: array_sort_def sorted_array_sort_aux)

lemma provided_cart_items:
  "b2b_items (provided_cart cart) =
     (case cart of None \<Rightarrow> None
      | Some c \<Rightarrow> map_option (array_sort compare_created) (b2b_items c))"
  by (simp add: provided_cart_def sortedItems_def Let_def split: option.splits)

subsection \<open>The sample data\<close>

lemmas sample_defs = two_item_store_def sample_store_def sample_cart_def sample_item_def
  sample_variant_def

section \<open>Properties of the store\<close>

subsection \<open>A rejected remote call writes the handler's snapshot variable\<close>

text \<open>
  Claim C1 says that after a rejected remote call the cart is the cart as it was just before
  the operation's optimistic update. The updaters of delete and update quantity return at
  \<^verbatim>\<open>if (!prev) return prev\<close> before they assign \<^verbatim>\<open>prevCart\<close>, which the handler has
  initialised to \<^verbatim>\<open>{}\<close>. When the guard passes on the rendered cart and the hook hands
  the updater a null state, the remote call is issued all the same, and its rejection
  writes the empty object: the cart before the operation was null, the cart afterwards is
  \<^verbatim>\<open>{}\<close>. (Bulk add clones \<^verbatim>\<open>prev\<close> first, null or not.)
\<close>

theorem rejected_call_on_null_state_writes_empty_object:
  "optimisticCart (sample_store None) = None
   \<and> handleDeleteItem_begin (Some one_item_cart) ''li_1'' (sample_store None) =
       (\<lparr>optimisticCart = None, remote_calls = [DeleteLineItem ''li_1''], toasts = []\<rparr>,
        Some (Some empty_object))
   \<and> handleDeleteItem_catch (Some empty_object)
         \<lparr>optimisticCart = None, remote_calls = [DeleteLineItem ''li_1''], toasts = []\<rparr> =
       \<lparr>optimisticCart = Some empty_object, remote_calls = [DeleteLineItem ''li_1''],
        toasts = [''Failed to delete item'']\<rparr>
   \<and> handleUpdateCartQuantity_begin (Some one_item_cart) ''li_1'' 3 (sample_store None) =
       (\<lparr>optimisticCart = None, remote_calls = [UpdateLineItem ''li_1'' 3], toasts = []\<rparr>,
        Some (Some empty_object))
   \<and> handleUpdateCartQuantity_catch (Some empty_object)
         \<lparr>optimisticCart = None, remote_calls = [UpdateLineItem ''li_1'' 3], toasts = []\<rparr> =
       \<lparr>optimisticCart = Some empty_object, remote_calls = [UpdateLineItem ''li_1'' 3],
        toasts = [''Failed to update cart quantity'']\<rparr>"
proof -
  have f: "find_item ''li_1'' (Some one_item_cart) =
             Some (sample_item ''li_1'' ''v1'' 10 1 (Some ''2024-05-01T10:00:00.000Z''))"
    by (simp add: find_item_def one_item_cart_def sample_cart_def sample_item_def)
  have o: "\<not> isOptimisticItemId ''li_1''"
    by (simp add: isOptimisticItemId_def startsWith_def OPTIMISTIC_ITEM_ID_PREFIX_def)
  show ?thesis
    by (simp add: handleDeleteItem_begin_passed [OF f] handleUpdateCartQuantity_begin_passed [OF f] o
        delete_updater_None update_updater_None sample_store_def
        handleDeleteItem_catch_def handleUpdateCartQuantity_catch_def)
qed

subsection \<open>Bulk add merges into an existing row or appends a new one\<close>

text \<open>
  Claim C2. One iteration of the bulk-add loop, on the working item list: if some line item
  has the variant id of the pair, the first such item gets the requested quantity added and
  the list keeps its length and every other item; otherwise a new line item is appended whose
  id is the optimistic id of the variant, whose quantity is the requested one and whose unit
  price is the variant's calculated amount, or 0 when the price or the amount is missing.
  The updater runs the iterations over the pairs in order, starting from the cart's item
  list. Two adds in a row of the same variant, not in the cart before, leave one new row
  with the sum of the two quantities (2 and 3 give 5).
\<close>

theorem bulk_add_merges_or_appends:
  "(list_ex (has_variant (variant_id (productVariant lineItem))) newItems \<longrightarrow>
      (\<exists>i<length newItems.
          has_variant (variant_id (productVariant lineItem)) (newItems ! i)
        \<and> (\<forall>j<i. \<not> has_variant (variant_id (productVariant lineItem)) (newItems ! j))
        \<and> add_line prev created lineItem newItems =
            newItems[i := (newItems ! i)\<lparr>quantity := quantity (newItems ! i) + pl_quantity lineItem\<rparr>]))
   \<and> (\<not> list_ex (has_variant (variant_id (productVariant lineItem))) newItems \<longrightarrow>
        add_line prev created lineItem newItems = newItems @ [newItem prev created lineItem]
      \<and> line_id (newItem prev created lineItem) =
          ''__optimistic__-'' @ variant_id (productVariant lineItem)
      \<and> quantity (newItem prev created lineItem) = pl_quantity lineItem
      \<and> unit_price (newItem prev created lineItem) =
          (case calculated_price (productVariant lineItem) of
             None \<Rightarrow> 0
           | Some cp \<Rightarrow> (case calculated_amount cp of None \<Rightarrow> 0 | Some a \<Rightarrow> a)))
   \<and> items_or_empty (snd (add_updater payload now prev)) =
        foldl (\<lambda>acc (k, l). add_line prev (now k) l acc) (items_or_empty prev)
          (enumerate 0 (lineItems payload))
   \<and> (\<not> list_ex (has_variant (variant_id (productVariant l1))) (items_or_empty prev)
        \<and> variant_id (productVariant l2) = variant_id (productVariant l1) \<longrightarrow>
        items_or_empty (snd (add_updater \<lparr>lineItems = [l2], regionId = r2\<rparr> now2
            (snd (add_updater \<lparr>lineItems = [l1], regionId = r1\<rparr> now1 prev)))) =
          items_or_empty prev @
            [(newItem prev (now1 0) l1)\<lparr>quantity := pl_quantity l1 + pl_quantity l2\<rparr>])"
proof (intro conjI impI)
  assume "list_ex (has_variant (variant_id (productVariant lineItem))) newItems"
  then show "\<exists>i<length newItems.
          has_variant (variant_id (productVariant lineItem)) (newItems ! i)
        \<and> (\<forall>j<i. \<not> has_variant (variant_id (productVariant lineItem)) (newItems ! j))
        \<and> add_line prev created lineItem newItems =
            newItems[i := (newItems ! i)\<lparr>quantity := quantity (newItems ! i) + pl_quantity lineItem\<rparr>]"
    by (rule add_line_merge)
next
  assume "\<not> list_ex (has_variant (variant_id (productVariant lineItem))) newItems"
  then show "add_line prev created lineItem newItems = newItems @ [newItem prev created lineItem]"
    by (rule add_line_new)
next
  show "line_id (newItem prev created lineItem) =
          ''__optimistic__-'' @ variant_id (productVariant lineItem)"
    by (simp add: newItem_def generateOptimisticItemId_def OPTIMISTIC_ITEM_ID_PREFIX_def)
next
  show "quantity (newItem prev created lineItem) = pl_quantity lineItem"
    by (simp add: newItem_def)
next
  show "unit_price (newItem prev created lineItem) =
          (case calculated_price (productVariant lineItem) of
             None \<Rightarrow> 0
           | Some cp \<Rightarrow> (case calculated_amount cp of None \<Rightarrow> 0 | Some a \<Rightarrow> a))"
    using priceAmount_eq [of lineItem] by (simp add: newItem_def)
next
  show "items_or_empty (snd (add_updater payload now prev)) =
        foldl (\<lambda>acc (k, l). add_line prev (now k) l acc) (items_or_empty prev)
          (enumerate 0 (lineItems payload))"
    by (simp add: add_updater_items add_loop_foldl)
next
  assume "\<not> list_ex (has_variant (variant_id (productVariant l1))) (items_or_empty prev)
        \<and> variant_id (productVariant l2) = variant_id (productVariant l1)"
  then show "items_or_empty (snd (add_updater \<lparr>lineItems = [l2], regionId = r2\<rparr> now2
            (snd (add_updater \<lparr>lineItems = [l1], regionId = r1\<rparr> now1 prev)))) =
          items_or_empty prev @
            [(newItem prev (now1 0) l1)\<lparr>quantity := pl_quantity l1 + pl_quantity l2\<rparr>]"
    using add_twice_merges by blast
qed


theorem bulk_add_merges_or_appends_witness:
  "\<not> list_ex (has_variant (variant_id (productVariant (line_v2 2)))) (items_or_empty (Some one_item_cart))
   \<and> variant_id (productVariant (line_v2 3)) = variant_id (productVariant (line_v2 2))
   \<and> items_or_empty (snd (add_updater \<lparr>lineItems = [line_v2 3], regionId = ''reg_1''\<rparr> clock
        (snd (add_updater \<lparr>lineItems = [line_v2 2], regionId = ''reg_1''\<rparr> clock (Some one_item_cart)))))
      = [sample_item ''li_1'' ''v1'' 10 1 (Some ''2024-05-01T10:00:00.000Z''),
         (newItem (Some one_item_cart) ''2024-05-02T09:00:00.000Z'' (line_v2 2))\<lparr>quantity := 5\<rparr>]
   \<and> line_id (newItem (Some one_item_cart) ''2024-05-02T09:00:00.000Z'' (line_v2 2)) = ''__optimistic__-v2''
   \<and> unit_price (newItem (Some one_item_cart) ''2024-05-02T09:00:00.000Z'' (line_v2 2)) = 50"
proof -
  have h1: "\<not> list_ex (has_variant (variant_id (productVariant (line_v2 2)))) (items_or_empty (Some one_item_cart))"
    by (simp add: line_v2_def one_item_cart_def sample_defs items_or_empty_def has_variant_def)
  have h2: "variant_id (productVariant (line_v2 3)) = variant_id (productVariant (line_v2 2))"
    by (simp add: line_v2_def)
  have h3: "\<not> list_ex (has_variant (variant_id (productVariant (line_v2 2)))) []"
    by simp
  have q: "pl_quantity (line_v2 2) + pl_quantity (line_v2 3) = 5"
    by (simp add: line_v2_def)
  have i: "items_or_empty (Some one_item_cart) =
      [sample_item ''li_1'' ''v1'' 10 1 (Some ''2024-05-01T10:00:00.000Z'')]"
    by (simp add: one_item_cart_def sample_cart_def items_or_empty_def)
  have c: "clock 0 = ''2024-05-02T09:00:00.000Z''"
    by (simp add: clock_def)
  have p: "calculated_price (productVariant (line_v2 2)) = Some \<lparr>calculated_amount = Some 50\<rparr>"
    "variant_id (productVariant (line_v2 2)) = ''v2''"
    by (simp_all add: line_v2_def sample_variant_def)
  from bulk_add_merges_or_appends
         [where ?l1.0 = "line_v2 2" and ?l2.0 = "line_v2 3" and prev = "Some one_item_cart"
            and ?now1.0 = clock and ?now2.0 = clock and ?r1.0 = "''reg_1''" and ?r2.0 = "''reg_1''"
            and lineItem = "line_v2 2" and newItems = "[]"
            and created = "''2024-05-02T09:00:00.000Z''"]
       h1 h2 h3
  show ?thesis
    by (simp add: q i c p)
qed

subsection \<open>The subtotal is recomputed\<close>

text \<open>
  Claim C3. After a bulk add, and after a delete or an update of the quantity of an id that
  is in the current item list, the cart's \<^verbatim>\<open>item_subtotal\<close> is the sum of
  \<^verbatim>\<open>unit_price * quantity\<close> over the item list the operation produced. Nothing is assumed
  of the subtotal before the operation: the new one is computed from the new item list
  alone. So each of the three operations either leaves the store exactly as it was (the id
  is not in the cart) or leaves a cart whose subtotal is that sum. The same holds when the
  rendered cart that the guard reads is not the state the updater is handed, as long as
  that state is a cart.
\<close>

theorem subtotal_recomputed_after_mutation:
  "subtotal_is_sum (optimisticCart (fst (handleOptimisticAddToCart_begin payload countryCode now s)))
   \<and> (lineItem \<in> set (map line_id (items_or_empty (optimisticCart s))) \<longrightarrow>
        subtotal_is_sum (optimisticCart (fst (handleDeleteItem_begin (optimisticCart s) lineItem s)))
      \<and> subtotal_is_sum
          (optimisticCart (fst (handleUpdateCartQuantity_begin (optimisticCart s) lineItem qty s))))
   \<and> (fst (begin_op (optimisticCart s) oper s) = s
        \<or> subtotal_is_sum (optimisticCart (fst (begin_op (optimisticCart s) oper s))))
   \<and> (lineItem \<in> set (map line_id (items_or_empty rendered)) \<and> optimisticCart s = Some c \<longrightarrow>
        subtotal_is_sum (optimisticCart (fst (handleDeleteItem_begin rendered lineItem s)))
      \<and> subtotal_is_sum (optimisticCart (fst (handleUpdateCartQuantity_begin rendered lineItem qty s))))"
proof -
  have add: "\<And>payload countryCode now.
      subtotal_is_sum (optimisticCart (fst (handleOptimisticAddToCart_begin payload countryCode now s)))"
    by (simp add: handleOptimisticAddToCart_begin_eq subtotal_is_sum_add_updater)
  have gen: "subtotal_is_sum (optimisticCart (fst (handleDeleteItem_begin r l s)))
           \<and> subtotal_is_sum (optimisticCart (fst (handleUpdateCartQuantity_begin r l q s)))"
    if "l \<in> set (map line_id (items_or_empty r))" and "optimisticCart s = Some d" for r l q d
  proof -
    from that(1) obtain item where f: "find_item l r = Some item"
      using present_passes_guard by blast
    show ?thesis
      by (simp add: handleDeleteItem_begin_passed [OF f] handleUpdateCartQuantity_begin_passed [OF f]
          that(2) subtotal_is_sum_delete_updater subtotal_is_sum_update_updater)
  qed
  have coh: "subtotal_is_sum (optimisticCart (fst (handleDeleteItem_begin (optimisticCart s) l s)))
           \<and> subtotal_is_sum (optimisticCart (fst (handleUpdateCartQuantity_begin (optimisticCart s) l q s)))"
    if "l \<in> set (map line_id (items_or_empty (optimisticCart s)))" for l q
  proof -
    from that obtain d where "optimisticCart s = Some d"
      using present_find_item [of l "optimisticCart s"] by auto
    from gen [OF that this] show ?thesis .
  qed
  have absent: "handleDeleteItem_begin (optimisticCart s) l s = (s, None)
              \<and> handleUpdateCartQuantity_begin (optimisticCart s) l q s = (s, None)"
    if "l \<notin> set (map line_id (items_or_empty (optimisticCart s)))" for l q
    using absent_fails_guard [OF that]
    by (simp add: handleDeleteItem_begin_def handleUpdateCartQuantity_begin_def)
  have every: "fst (begin_op (optimisticCart s) oper s) = s
             \<or> subtotal_is_sum (optimisticCart (fst (begin_op (optimisticCart s) oper s)))"
  proof (cases oper)
    case (BulkAdd payload countryCode now)
    then show ?thesis using add by simp
  next
    case (DeleteItem l)
    then show ?thesis
      using coh [of l] absent [of l]
      by (cases "l \<in> set (map line_id (items_or_empty (optimisticCart s)))") simp_all
  next
    case (UpdateQuantity l q)
    then show ?thesis
      using coh [of l q] absent [of l q]
      by (cases "l \<in> set (map line_id (items_or_empty (optimisticCart s)))") simp_all
  qed
  from add coh gen every show ?thesis by blast
qed

theorem subtotal_recomputed_after_mutation_witness:
  "subtotal_is_sum (optimisticCart (fst (handleOptimisticAddToCart_begin
       \<lparr>lineItems = [\<lparr>productVariant = sample_variant ''v3'' (Some 7), pl_quantity = 3\<rparr>],
        regionId = ''reg_1''\<rparr> ''us'' (\<lambda>k. ''2024-05-02T09:00:00.000Z'') two_item_store)))
   \<and> subtotal_is_sum (optimisticCart (fst (handleDeleteItem_begin
        (optimisticCart two_item_store) ''li_1'' two_item_store)))
   \<and> subtotal_is_sum (optimisticCart (fst (handleUpdateCartQuantity_begin
        (optimisticCart two_item_store) ''li_1'' 5 two_item_store)))
   \<and> b2b_item_subtotal (spread (optimisticCart (fst (handleUpdateCartQuantity_begin
        (optimisticCart two_item_store) ''li_1'' 5 two_item_store)))) = Some 270
   \<and> subtotal_is_sum (optimisticCart (fst (handleDeleteItem_begin
        (Some one_item_cart) ''li_1'' two_item_store)))"
proof -
  have h1: "''li_1'' \<in> set (map line_id (items_or_empty (optimisticCart two_item_store)))"
    by (simp add: sample_defs items_or_empty_def)
  have h2: "''li_1'' \<in> set (map line_id (items_or_empty (Some one_item_cart)))"
    by (simp add: one_item_cart_def sample_defs items_or_empty_def)
  obtain c where h3: "optimisticCart two_item_store = Some c"
    by (simp add: sample_defs)
  have e: "b2b_item_subtotal (spread (optimisticCart (fst (handleUpdateCartQuantity_begin
        (optimisticCart two_item_store) ''li_1'' 5 two_item_store)))) = Some 270"
    by (simp add: handleUpdateCartQuantity_begin_def find_item_def sample_defs update_updater_Some
        updated_items_def spread_def isOptimisticItemId_def startsWith_def OPTIMISTIC_ITEM_ID_PREFIX_def)
  from subtotal_recomputed_after_mutation
         [where s = two_item_store and lineItem = "''li_1''" and qty = 5
            and rendered = "Some one_item_cart" and c = c]
       h1 h2 h3 e
  show ?thesis by simp
qed

subsection \<open>Updating an unconfirmed line item\<close>

text \<open>
  Claim C4. For an update of the quantity of an id that is in the current item list, the
  remote call \<^verbatim>\<open>updateLineItem\<close> is issued exactly when the id does not start with the
  optimistic prefix. For an id with the prefix the updater still runs on the cart, no call
  is issued and none is in flight. The item list is the one the guard reads, the rendered
  cart; the updater runs on the state the hook hands it.
\<close>

theorem update_remote_call_iff_authoritative:
  assumes "lineItem \<in> set (map line_id (items_or_empty rendered))"
  shows "remote_calls (fst (handleUpdateCartQuantity_begin rendered lineItem qty s)) =
           remote_calls s @ (if isOptimisticItemId lineItem then [] else [UpdateLineItem lineItem qty])
       \<and> (snd (handleUpdateCartQuantity_begin rendered lineItem qty s) = None) = isOptimisticItemId lineItem
       \<and> optimisticCart (fst (handleUpdateCartQuantity_begin rendered lineItem qty s)) =
           snd (update_updater lineItem qty (Some empty_object) (optimisticCart s))
       \<and> isOptimisticItemId lineItem = (\<exists>rest. lineItem = OPTIMISTIC_ITEM_ID_PREFIX @ rest)"
proof -
  from assms obtain item where f: "find_item lineItem rendered = Some item"
    using present_passes_guard by blast
  have "isOptimisticItemId lineItem = (\<exists>rest. lineItem = OPTIMISTIC_ITEM_ID_PREFIX @ rest)"
    unfolding isOptimisticItemId_def startsWith_def
    by (metis append_eq_conv_conj append_take_drop_id)
  then show ?thesis
    by (simp add: handleUpdateCartQuantity_begin_passed [OF f])
qed

theorem update_remote_call_iff_authoritative_witness:
  "remote_calls (fst (handleUpdateCartQuantity_begin (optimisticCart two_item_store)
        ''li_1'' 5 two_item_store)) = [UpdateLineItem ''li_1'' 5]
   \<and> snd (handleUpdateCartQuantity_begin (optimisticCart two_item_store)
        ''li_1'' 5 two_item_store) \<noteq> None
   \<and> remote_calls (fst (handleUpdateCartQuantity_begin (optimisticCart two_item_store)
        ''__optimistic__-v2'' 4 two_item_store)) = []
   \<and> snd (handleUpdateCartQuantity_begin (optimisticCart two_item_store)
        ''__optimistic__-v2'' 4 two_item_store) = None
   \<and> map quantity (items_or_empty (optimisticCart
         (fst (handleUpdateCartQuantity_begin (optimisticCart two_item_store)
            ''__optimistic__-v2'' 4 two_item_store)))) = [2, 4]"
proof -
  have h1: "''li_1'' \<in> set (map line_id (items_or_empty (optimisticCart two_item_store)))"
    by (simp add: sample_defs items_or_empty_def)
  have h2: "''__optimistic__-v2'' \<in> set (map line_id (items_or_empty (optimisticCart two_item_store)))"
    by (simp add: sample_defs items_or_empty_def)
  have o1: "\<not> isOptimisticItemId ''li_1''"
    by (simp add: isOptimisticItemId_def startsWith_def OPTIMISTIC_ITEM_ID_PREFIX_def)
  have o2: "isOptimisticItemId ''__optimistic__-v2''"
    by (simp add: isOptimisticItemId_def startsWith_def OPTIMISTIC_ITEM_ID_PREFIX_def)
  have r: "remote_calls two_item_store = []"
    by (simp add: sample_defs)
  have u: "map quantity (items_or_empty (snd (update_updater ''__optimistic__-v2'' 4
             (Some empty_object) (optimisticCart two_item_store)))) = [2, 4]"
    by (simp add: sample_defs update_updater_Some updated_items_def items_or_empty_def)
  from update_remote_call_iff_authoritative [OF h1, where qty = 5 and s = two_item_store]
       update_remote_call_iff_authoritative [OF h2, where qty = 4 and s = two_item_store]
  show ?thesis
    by (simp add: o1 o2 r u)
qed

subsection \<open>Update to zero removes, update to a positive quantity replaces\<close>

text \<open>
  Claim C5. For an update of the quantity of an id that is in the current item list: with
  quantity 0 the line items with that id are filtered out and the subtotal is the sum over
  the remaining ones; with a quantity above 0 the quantity of the line items with that id is
  replaced and every other item stays as it is, in its place (the subtotal is recomputed
  here too). The other properties of the cart are kept. The guard reads the rendered cart;
  the item list that is rewritten is the one of the state the updater is handed.
\<close>

theorem update_quantity_removes_or_replaces:
  assumes "lineItem \<in> set (map line_id (items_or_empty rendered))"
    and "optimisticCart s = Some c" and "b2b_items c = Some xs"
  shows "(qty = 0 \<longrightarrow>
            optimisticCart (fst (handleUpdateCartQuantity_begin rendered lineItem qty s)) =
              Some (c\<lparr>b2b_item_subtotal :=
                         Some (\<Sum>item\<leftarrow>filter (\<lambda>item. line_id item \<noteq> lineItem) xs.
                                 unit_price item * quantity item),
                      b2b_items := Some (filter (\<lambda>item. line_id item \<noteq> lineItem) xs)\<rparr>))
       \<and> (0 < qty \<longrightarrow>
            optimisticCart (fst (handleUpdateCartQuantity_begin rendered lineItem qty s)) =
              Some (c\<lparr>b2b_item_subtotal :=
                         Some (\<Sum>item\<leftarrow>map (\<lambda>item. if line_id item = lineItem
                                                       then item\<lparr>quantity := qty\<rparr> else item) xs.
                                 unit_price item * quantity item),
                      b2b_items := Some (map (\<lambda>item. if line_id item = lineItem
                                                      then item\<lparr>quantity := qty\<rparr> else item) xs)\<rparr>))"
proof -
  from assms(1) obtain item where f: "find_item lineItem rendered = Some item"
    using present_passes_guard by blast
  show ?thesis
    by (simp add: handleUpdateCartQuantity_begin_passed [OF f] update_updater_Some assms(2,3)
        updated_items_def)
qed

theorem update_quantity_removes_or_replaces_witness:
  "optimisticCart (fst (handleUpdateCartQuantity_begin (optimisticCart two_item_store)
        ''li_1'' 0 two_item_store)) =
     Some (sample_cart [sample_item ''__optimistic__-v2'' ''v2'' 20 1 (Some ''2024-05-01T11:00:00.000Z'')])
   \<and> optimisticCart (fst (handleUpdateCartQuantity_begin (optimisticCart two_item_store)
        ''li_1'' 5 two_item_store)) =
     Some (sample_cart
       [(sample_item ''li_1'' ''v1'' 50 2 (Some ''2024-05-01T10:00:00.000Z''))\<lparr>quantity := 5\<rparr>,
        sample_item ''__optimistic__-v2'' ''v2'' 20 1 (Some ''2024-05-01T11:00:00.000Z'')])"
proof -
  let ?c = "sample_cart
       [sample_item ''li_1'' ''v1'' 50 2 (Some ''2024-05-01T10:00:00.000Z''),
        sample_item ''__optimistic__-v2'' ''v2'' 20 1 (Some ''2024-05-01T11:00:00.000Z'')]"
  let ?xs = "[sample_item ''li_1'' ''v1'' 50 2 (Some ''2024-05-01T10:00:00.000Z''),
        sample_item ''__optimistic__-v2'' ''v2'' 20 1 (Some ''2024-05-01T11:00:00.000Z'')]"
  have h1: "optimisticCart two_item_store = Some ?c"
    by (simp add: two_item_store_def sample_store_def)
  have h2: "b2b_items ?c = Some ?xs"
    by (simp add: sample_cart_def)
  have h3: "''li_1'' \<in> set (map line_id (items_or_empty (optimisticCart two_item_store)))"
    by (simp add: sample_defs items_or_empty_def)
  from update_quantity_removes_or_replaces [OF h3 h1 h2, where qty = 0]
       update_quantity_removes_or_replaces [OF h3 h1 h2, where qty = 5]
  show ?thesis
    by (simp add: sample_cart_def sample_item_def)
qed

subsection \<open>An id that is not in the cart\<close>

text \<open>
  Claim C6. When no line item of the current item list has the given id (in particular when
  there is no cart, or the cart has no item list), \<open>handleDeleteItem\<close> and
  \<open>handleUpdateCartQuantity\<close> return at their guard: the store (cart, remote calls issued,
  notifications) is the same as before and no remote call is in flight. The item list is
  the one the guard reads, the rendered cart; the state of the hook is not read at all.
\<close>

theorem missing_id_is_noop:
  assumes "lineItem \<notin> set (map line_id (items_or_empty rendered))"
  shows "handleDeleteItem_begin rendered lineItem s = (s, None)
       \<and> handleUpdateCartQuantity_begin rendered lineItem qty s = (s, None)"
proof -
  from assms have "find_item lineItem rendered = None"
    by (rule absent_fails_guard)
  then show ?thesis
    by (simp add: handleDeleteItem_begin_def handleUpdateCartQuantity_begin_def)
qed

theorem missing_id_is_noop_witness:
  "''li_9'' \<notin> set (map line_id (items_or_empty (optimisticCart
        (sample_store (Some (sample_cart [sample_item ''li_1'' ''v1'' 50 2 None]))))))
   \<and> handleDeleteItem_begin
        (optimisticCart (sample_store (Some (sample_cart [sample_item ''li_1'' ''v1'' 50 2 None]))))
        ''li_9'' (sample_store (Some (sample_cart [sample_item ''li_1'' ''v1'' 50 2 None])))
      = (sample_store (Some (sample_cart [sample_item ''li_1'' ''v1'' 50 2 None])), None)
   \<and> handleUpdateCartQuantity_begin
        (optimisticCart (sample_store (Some (sample_cart [sample_item ''li_1'' ''v1'' 50 2 None]))))
        ''li_9'' 5 (sample_store (Some (sample_cart [sample_item ''li_1'' ''v1'' 50 2 None])))
      = (sample_store (Some (sample_cart [sample_item ''li_1'' ''v1'' 50 2 None])), None)"
proof -
  have h: "''li_9'' \<notin> set (map line_id (items_or_empty (optimisticCart
        (sample_store (Some (sample_cart [sample_item ''li_1'' ''v1'' 50 2 None]))))))"
    by (simp add: items_or_empty_def sample_store_def sample_cart_def sample_item_def)
  from h missing_id_is_noop
           [OF h, where qty = 5
              and s = "sample_store (Some (sample_cart [sample_item ''li_1'' ''v1'' 50 2 None]))"]
  show ?thesis by simp
qed

subsection \<open>The view handed to consumers\<close>

text \<open>
  Claim C7. Whenever the provided cart has an item list, that list holds the line items of
  the current list, each as often as there, ordered by \<^verbatim>\<open>created_at ?? ""\<close> descending
  under string comparison, and a line item without a timestamp never comes before one that
  has a timestamp. A timestamp is what \<^verbatim>\<open>toISOString\<close> or the backend writes; the empty
  string, which the comparator cannot tell from a missing timestamp, is assumed not to
  occur as one.
\<close>

theorem sorted_view_descending:
  assumes "b2b_items (provided_cart cart) = Some view"
    and "Some [] \<notin> set (map created_at (items_or_empty cart))"
  shows "mset view = mset (items_or_empty cart)
       \<and> sorted_wrt (\<lambda>a b. created_key b \<le> created_key a) view
       \<and> sorted_wrt (\<lambda>a b. \<not> (created_at a = None \<and> created_at b \<noteq> None)) view"
proof -
  from assms(1) obtain c xs where c: "cart = Some c" "b2b_items c = Some xs"
    and v: "view = array_sort compare_created xs"
    by (cases cart) (auto simp: provided_cart_items)
  have m: "mset view = mset (items_or_empty cart)"
    by (simp add: v c items_or_empty_def mset_array_sort)
  have s: "sorted_wrt (\<lambda>a b. created_key b \<le> created_key a) view"
    by (simp add: v sorted_array_sort)
  from m have "set view = set (items_or_empty cart)"
    by (rule mset_eq_setD)
  with assms(2) have ne: "\<And>b. b \<in> set view \<Longrightarrow> created_at b \<noteq> Some []"
    by force
  have "\<not> (created_at a = None \<and> created_at b \<noteq> None)"
    if "a \<in> set view" and "b \<in> set view" and "created_key b \<le> created_key a" for a b
    using that(3) ne [OF that(2)]
    by (cases "created_at a"; cases "created_at b") (auto simp: created_key_def)
  with s have "sorted_wrt (\<lambda>a b. \<not> (created_at a = None \<and> created_at b \<noteq> None)) view"
    by (rule sorted_wrt_mono_rel [rotated]) blast
  with m s show ?thesis by simp
qed

theorem sorted_view_descending_witness:
  "b2b_items (provided_cart (Some (sample_cart [untimed_item, old_item, recent_item])))
     = Some [recent_item, old_item, untimed_item]
   \<and> Some [] \<notin> set (map created_at
        (items_or_empty (Some (sample_cart [untimed_item, old_item, recent_item]))))
   \<and> mset [recent_item, old_item, untimed_item]
     = mset (items_or_empty (Some (sample_cart [untimed_item, old_item, recent_item])))
   \<and> sorted_wrt (\<lambda>a b. created_key b \<le> created_key a) [recent_item, old_item, untimed_item]
   \<and> sorted_wrt (\<lambda>a b. \<not> (created_at a = None \<and> created_at b \<noteq> None))
        [recent_item, old_item, untimed_item]"
proof -
  have h: "b2b_items (provided_cart (Some (sample_cart [untimed_item, old_item, recent_item])))
     = Some [recent_item, old_item, untimed_item]"
    by (simp add: provided_cart_items sample_cart_def array_sort_def compare_created_def
      created_key_def untimed_item_def old_item_def recent_item_def sample_item_def)
  have n: "Some [] \<notin> set (map created_at
        (items_or_empty (Some (sample_cart [untimed_item, old_item, recent_item]))))"
    by (simp add: items_or_empty_def sample_cart_def untimed_item_def old_item_def
        recent_item_def sample_item_def)
  from sorted_view_descending [OF h n] h n show ?thesis by simp
qed

subsection \<open>Computing the view writes to the store\<close>

text \<open>
  Claim C8 says that computing the sorted view leaves the store's item list as it was. The
  source sorts \<^verbatim>\<open>optimisticCart.items\<close> itself: for a cart whose older item comes first
  (the state after a bulk add has appended a row), the store's list afterwards is the sorted
  one, the order it had is gone.
\<close>

theorem sortedItems_reorders_the_store:
  "sortedItems (Some (sample_cart [old_item, recent_item]))
     = (Some [recent_item, old_item], Some (sample_cart [recent_item, old_item]))
   \<and> b2b_items (sample_cart [old_item, recent_item]) = Some [old_item, recent_item]
   \<and> [old_item, recent_item] \<noteq> [recent_item, old_item]"
  by (simp add: sortedItems_def Let_def sample_cart_def array_sort_def compare_created_def
      created_key_def old_item_def recent_item_def sample_item_def)

subsection \<open>Per-item monetary fields of a synthesized row\<close>

text \<open>
  Claim C9. The line item that bulk add synthesizes has \<^verbatim>\<open>subtotal\<close>, \<^verbatim>\<open>total\<close>,
  \<^verbatim>\<open>item_subtotal\<close>, \<^verbatim>\<open>item_total\<close>, \<^verbatim>\<open>original_subtotal\<close> and \<^verbatim>\<open>original_total\<close> all
  equal to the unit price, whatever the requested quantity; the cart's subtotal grows by
  unit price times quantity. An iteration that increments an existing row leaves the six
  fields of every row as they were.
\<close>

theorem per_item_money_fields_ignore_quantity:
  "money_fields (newItem prev created lineItem) =
     (priceAmount lineItem, priceAmount lineItem, priceAmount lineItem,
      priceAmount lineItem, priceAmount lineItem, priceAmount lineItem)
   \<and> priceAmount (lineItem\<lparr>pl_quantity := q\<rparr>) = priceAmount lineItem
   \<and> unit_price (newItem prev created lineItem) = priceAmount lineItem
   \<and> quantity (newItem prev created lineItem) = pl_quantity lineItem
   \<and> (\<not> list_ex (has_variant (variant_id (productVariant lineItem))) (items_or_empty prev) \<longrightarrow>
        b2b_item_subtotal (spread (snd (add_updater \<lparr>lineItems = [lineItem], regionId = r\<rparr> now prev))) =
          Some ((\<Sum>item\<leftarrow>items_or_empty prev. unit_price item * quantity item)
                + priceAmount lineItem * pl_quantity lineItem))
   \<and> (list_ex (has_variant (variant_id (productVariant lineItem))) newItems \<longrightarrow>
        map money_fields (add_line prev created lineItem newItems) = map money_fields newItems)"
proof (intro conjI impI)
  show "money_fields (newItem prev created lineItem) =
     (priceAmount lineItem, priceAmount lineItem, priceAmount lineItem,
      priceAmount lineItem, priceAmount lineItem, priceAmount lineItem)"
    by (simp add: money_fields_def newItem_def)
next
  show "priceAmount (lineItem\<lparr>pl_quantity := q\<rparr>) = priceAmount lineItem"
    by (simp add: priceAmount_def)
next
  show "unit_price (newItem prev created lineItem) = priceAmount lineItem"
    by (simp add: newItem_def)
next
  show "quantity (newItem prev created lineItem) = pl_quantity lineItem"
    by (simp add: newItem_def)
next
  assume fresh: "\<not> list_ex (has_variant (variant_id (productVariant lineItem))) (items_or_empty prev)"
  have "snd (add_updater \<lparr>lineItems = [lineItem], regionId = r\<rparr> now prev) =
          Some ((spread prev)\<lparr>b2b_item_subtotal :=
                   Some (calculateCartTotal (items_or_empty prev @ [newItem prev (now 0) lineItem])),
                 b2b_items := Some (items_or_empty prev @ [newItem prev (now 0) lineItem])\<rparr>)"
    by (simp add: add_updater_def Let_def add_line_new [OF fresh])
  then show "b2b_item_subtotal (spread (snd (add_updater \<lparr>lineItems = [lineItem], regionId = r\<rparr> now prev))) =
          Some ((\<Sum>item\<leftarrow>items_or_empty prev. unit_price item * quantity item)
                + priceAmount lineItem * pl_quantity lineItem)"
    by (simp add: spread_def calculateCartTotal_sum newItem_def)
next
  assume "list_ex (has_variant (variant_id (productVariant lineItem))) newItems"
  from add_line_merge [OF this, of prev created] obtain i where
    i: "i < length newItems"
      "add_line prev created lineItem newItems =
         newItems[i := (newItems ! i)\<lparr>quantity := quantity (newItems ! i) + pl_quantity lineItem\<rparr>]"
    by blast
  have "money_fields ((newItems ! i)\<lparr>quantity := quantity (newItems ! i) + pl_quantity lineItem\<rparr>)
          = money_fields (newItems ! i)"
    by (simp add: money_fields_def)
  then show "map money_fields (add_line prev created lineItem newItems) = map money_fields newItems"
    using i by (simp add: map_update list_update_same_conv)
qed

theorem per_item_money_fields_ignore_quantity_witness:
  "\<not> list_ex (has_variant (variant_id (productVariant (line_v2 3)))) (items_or_empty (Some one_item_cart))
   \<and> money_fields (newItem (Some one_item_cart) ''2024-05-02T09:00:00.000Z'' (line_v2 3))
       = (50, 50, 50, 50, 50, 50)
   \<and> b2b_item_subtotal (spread (snd (add_updater \<lparr>lineItems = [line_v2 3], regionId = ''reg_1''\<rparr>
         clock (Some one_item_cart)))) = Some 160
   \<and> list_ex (has_variant (variant_id (productVariant (line_v2 3))))
        [newItem (Some one_item_cart) ''2024-05-02T09:00:00.000Z'' (line_v2 2)]
   \<and> map money_fields (add_line (Some one_item_cart) ''2024-05-02T09:30:00.000Z'' (line_v2 3)
        [newItem (Some one_item_cart) ''2024-05-02T09:00:00.000Z'' (line_v2 2)]) = [(50, 50, 50, 50, 50, 50)]"
proof -
  have h1: "\<not> list_ex (has_variant (variant_id (productVariant (line_v2 3)))) (items_or_empty (Some one_item_cart))"
    by (simp add: line_v2_def one_item_cart_def sample_defs items_or_empty_def has_variant_def)
  have h2: "list_ex (has_variant (variant_id (productVariant (line_v2 3))))
        [newItem (Some one_item_cart) ''2024-05-02T09:00:00.000Z'' (line_v2 2)]"
    by (simp add: has_variant_newItem line_v2_def)
  have p: "priceAmount (line_v2 3) = 50" "priceAmount (line_v2 2) = 50" "pl_quantity (line_v2 3) = 3"
    by (simp_all add: priceAmount_def line_v2_def sample_variant_def or_zero_def)
  have i: "items_or_empty (Some one_item_cart) =
      [sample_item ''li_1'' ''v1'' 10 1 (Some ''2024-05-01T10:00:00.000Z'')]"
    by (simp add: one_item_cart_def sample_cart_def items_or_empty_def)
  have u: "unit_price (sample_item ''li_1'' ''v1'' 10 1 (Some ''2024-05-01T10:00:00.000Z'')) = 10"
    "quantity (sample_item ''li_1'' ''v1'' 10 1 (Some ''2024-05-01T10:00:00.000Z'')) = 1"
    by (simp_all add: sample_item_def)
  have m: "money_fields (newItem (Some one_item_cart) ''2024-05-02T09:00:00.000Z'' (line_v2 2))
       = (50, 50, 50, 50, 50, 50)"
    by (simp add: money_fields_def newItem_def p)
  from per_item_money_fields_ignore_quantity
         [where lineItem = "line_v2 3" and prev = "Some one_item_cart" and now = clock
            and r = "''reg_1''" and created = "''2024-05-02T09:00:00.000Z''" and newItems = "[]"]
       per_item_money_fields_ignore_quantity
         [where lineItem = "line_v2 3" and prev = "Some one_item_cart"
            and created = "''2024-05-02T09:30:00.000Z''"
            and newItems = "[newItem (Some one_item_cart) ''2024-05-02T09:00:00.000Z'' (line_v2 2)]"]
       h1 h2
  show ?thesis
    by (simp add: p i u m)
qed

subsection \<open>No cart\<close>

text \<open>
  Claim C10 ends on "every operation is total on the null cart and preserves it". Bulk add
  does not preserve the null cart: its updater spreads null into an empty object and returns
  a cart with the recomputed subtotal and the synthesized rows.
\<close>

theorem bulk_add_on_null_cart_builds_a_cart:
  "optimisticCart (sample_store None) = None
   \<and> optimisticCart (fst (handleOptimisticAddToCart_begin
        \<lparr>lineItems = [line_v2 2], regionId = ''reg_1''\<rparr> ''us'' clock (sample_store None)))
     = Some \<lparr>b2b_id = None, b2b_region_id = None, b2b_item_subtotal = Some 100,
             b2b_items = Some [newItem None ''2024-05-02T09:00:00.000Z'' (line_v2 2)]\<rparr>"
proof -
  have t: "calculateCartTotal [newItem None ''2024-05-02T09:00:00.000Z'' (line_v2 2)] = 100"
    by (simp add: calculateCartTotal_sum newItem_def priceAmount_def line_v2_def
        sample_variant_def or_zero_def)
  show ?thesis
    by (simp add: handleOptimisticAddToCart_begin_eq add_updater_def Let_def items_or_empty_def
        sample_store_def add_line_new clock_def t spread_def empty_object_def)
qed

text \<open>
  Claim C10, amended. When the rendered cart is null, delete and update quantity return at
  their guard: the store is unchanged and no remote call is issued, whatever the state of
  the hook. The updaters of the two run only after the guard has passed on a rendered cart
  that has the id; when the hook then hands them a null state they return it unchanged, so
  the cart stays null, and the handler goes on to issue its remote call (update quantity
  only for an authoritative id). Bulk add on a null state returns a cart object that holds
  only the recomputed subtotal and the rows built from the payload.
\<close>

theorem null_cart_guard_and_updater:
  assumes "lineItem \<in> set (map line_id (items_or_empty rendered))"
    and "optimisticCart s = None"
  shows "handleDeleteItem_begin None anyItem s' = (s', None)
       \<and> handleUpdateCartQuantity_begin None anyItem qty s' = (s', None)
       \<and> fst (handleDeleteItem_begin rendered lineItem s) =
           s\<lparr>remote_calls := remote_calls s @ [DeleteLineItem lineItem]\<rparr>
       \<and> fst (handleUpdateCartQuantity_begin rendered lineItem qty s) =
           s\<lparr>remote_calls := remote_calls s @
                (if isOptimisticItemId lineItem then [] else [UpdateLineItem lineItem qty])\<rparr>
       \<and> optimisticCart (fst (handleDeleteItem_begin rendered lineItem s)) = None
       \<and> optimisticCart (fst (handleUpdateCartQuantity_begin rendered lineItem qty s)) = None
       \<and> optimisticCart (fst (handleOptimisticAddToCart_begin payload countryCode now s)) =
           Some (empty_object
                  \<lparr>b2b_item_subtotal :=
                      Some (\<Sum>item\<leftarrow>add_loop None now 0 (lineItems payload) [].
                              unit_price item * quantity item),
                   b2b_items := Some (add_loop None now 0 (lineItems payload) [])\<rparr>)"
proof -
  from assms(1) obtain item where f: "find_item lineItem rendered = Some item"
    using present_passes_guard by blast
  have g: "handleDeleteItem_begin None anyItem s' = (s', None)
         \<and> handleUpdateCartQuantity_begin None anyItem qty s' = (s', None)"
    by (simp add: handleDeleteItem_begin_def handleUpdateCartQuantity_begin_def find_item_def)
  have d: "fst (handleDeleteItem_begin rendered lineItem s) =
           s\<lparr>remote_calls := remote_calls s @ [DeleteLineItem lineItem]\<rparr>"
    using assms(2) by (simp add: handleDeleteItem_begin_passed [OF f] delete_updater_None)
  have u: "fst (handleUpdateCartQuantity_begin rendered lineItem qty s) =
           s\<lparr>remote_calls := remote_calls s @
                (if isOptimisticItemId lineItem then [] else [UpdateLineItem lineItem qty])\<rparr>"
    using assms(2) by (simp add: handleUpdateCartQuantity_begin_passed [OF f] update_updater_None)
  have a: "optimisticCart (fst (handleOptimisticAddToCart_begin payload countryCode now s)) =
           Some (empty_object
                  \<lparr>b2b_item_subtotal :=
                      Some (\<Sum>item\<leftarrow>add_loop None now 0 (lineItems payload) [].
                              unit_price item * quantity item),
                   b2b_items := Some (add_loop None now 0 (lineItems payload) [])\<rparr>)"
    using assms(2)
    by (simp add: handleOptimisticAddToCart_begin_eq add_updater_def Let_def items_or_empty_def
        spread_def calculateCartTotal_sum)
  from g d u a assms(2) show ?thesis by simp
qed

theorem null_cart_guard_and_updater_witness:
  "''li_1'' \<in> set (map line_id (items_or_empty (Some one_item_cart)))
   \<and> optimisticCart (sample_store None) = None
   \<and> handleDeleteItem_begin None ''li_1'' two_item_store = (two_item_store, None)
   \<and> handleUpdateCartQuantity_begin None ''li_1'' 3 two_item_store = (two_item_store, None)
   \<and> fst (handleDeleteItem_begin (Some one_item_cart) ''li_1'' (sample_store None)) =
       \<lparr>optimisticCart = None, remote_calls = [DeleteLineItem ''li_1''], toasts = []\<rparr>
   \<and> fst (handleUpdateCartQuantity_begin (Some one_item_cart) ''li_1'' 3 (sample_store None)) =
       \<lparr>optimisticCart = None, remote_calls = [UpdateLineItem ''li_1'' 3], toasts = []\<rparr>"
proof -
  have h1: "''li_1'' \<in> set (map line_id (items_or_empty (Some one_item_cart)))"
    by (simp add: one_item_cart_def sample_defs items_or_empty_def)
  have h2: "optimisticCart (sample_store None) = None"
    by (simp add: sample_store_def)
  have o: "\<not> isOptimisticItemId ''li_1''"
    by (simp add: isOptimisticItemId_def startsWith_def OPTIMISTIC_ITEM_ID_PREFIX_def)
  from null_cart_guard_and_updater
         [OF h1 h2, where anyItem = "''li_1''" and qty = 3 and s' = two_item_store]
       h1 h2 o
  show ?thesis by (simp add: sample_store_def)
qed

end
